theory Spec2Isabelle
  imports Main "HOL-Library.Sublist"
begin

section \<open>Python strings\<close>

text \<open>
  A Python \<open>str\<close> is a sequence of Unicode code points, so a string is a list of
  natural numbers (the code points); \<open>asc\<close> reads an ASCII literal as such a list.
\<close>

type_synonym pystr = "nat list"

definition asc :: "string \<Rightarrow> pystr" where
  "asc s = map of_char s"

abbreviation hyphen :: nat where
  "hyphen \<equiv> 45"

text \<open>
  \<open>str.lower()\<close>. On a string of ASCII characters only it maps \<open>A-Z\<close> to \<open>a-z\<close> and
  leaves every other character alone. On any other string the result comes from the
  Unicode tables of the Python runtime, which are no part of the repository: they are
  the parameter \<open>L\<close>, about which nothing is assumed.
\<close>

definition ascii_lower :: "nat \<Rightarrow> nat" where
  "ascii_lower c = (if 65 \<le> c \<and> c \<le> 90 then c + 32 else c)"

definition py_lower :: "(pystr \<Rightarrow> pystr) \<Rightarrow> pystr \<Rightarrow> pystr" where
  "py_lower L s = (if list_all (\<lambda>c. c < 128) s then map ascii_lower s else L s)"

section \<open>Slug sanitizer (\<open>_sanitize_slug\<close>)\<close>

text \<open>The character class \<open>[a-z0-9-]\<close>.\<close>

definition slug_char :: "nat \<Rightarrow> bool" where
  "slug_char c = ((97 \<le> c \<and> c \<le> 122) \<or> (48 \<le> c \<and> c \<le> 57) \<or> c = hyphen)"

text \<open>\<open>re.sub(r"[^a-z0-9-]", "-", slug)\<close>: every character outside the class becomes a hyphen.\<close>

definition sub_non_slug :: "pystr \<Rightarrow> pystr" where
  "sub_non_slug s = map (\<lambda>c. if slug_char c then c else hyphen) s"

text \<open>
  \<open>re.sub(r"-{2,}", "-", slug)\<close>: the scan goes left to right; where two hyphens start
  at the current position the greedy match takes the whole run of hyphens and one hyphen
  is written for it, otherwise the character is copied.
\<close>

function sub_hyphen_runs :: "pystr \<Rightarrow> pystr" where
  "sub_hyphen_runs [] = []"
| "sub_hyphen_runs (c # cs) =
     (if c = hyphen \<and> cs \<noteq> [] \<and> hd cs = hyphen
      then hyphen # sub_hyphen_runs (dropWhile (\<lambda>d. d = hyphen) cs)
      else c # sub_hyphen_runs cs)"
  by pat_completeness auto
termination
  by (relation "measure length") (auto simp: length_dropWhile_le less_Suc_eq_le)

text \<open>\<open>slug.strip("-")\<close>: leading hyphens go, then trailing ones.\<close>

definition strip_hyphens :: "pystr \<Rightarrow> pystr" where
  "strip_hyphens s =
     rev (dropWhile (\<lambda>c. c = hyphen) (rev (dropWhile (\<lambda>c. c = hyphen) s)))"

definition sanitize_slug :: "(pystr \<Rightarrow> pystr) \<Rightarrow> pystr \<Rightarrow> pystr" where
  "sanitize_slug L slug =
     (let s1 = py_lower L slug;
          s2 = sub_non_slug s1;
          s3 = sub_hyphen_runs s2;
          s4 = strip_hyphens s3
      in if s4 = [] then asc ''article'' else s4)"

text \<open>
  The shape of a sanitized slug, as a check on strings: not empty, made of the class
  \<open>[a-z0-9-]\<close>, no hyphen at either end and no two hyphens in a row.
\<close>

fun no_double :: "pystr \<Rightarrow> bool" where
  "no_double [] = True"
| "no_double [c] = True"
| "no_double (c # d # s) = ((c \<noteq> hyphen \<or> d \<noteq> hyphen) \<and> no_double (d # s))"

definition is_slug :: "pystr \<Rightarrow> bool" where
  "is_slug s = (s \<noteq> [] \<and> list_all slug_char s \<and> hd s \<noteq> hyphen \<and> last s \<noteq> hyphen \<and> no_double s)"

subsection \<open>The algorithm as the specification words it\<close>

text \<open>
  The five steps of the specification, each written from its sentence: lower-case the
  string; replace every character outside \<open>[a-z0-9-]\<close> by a hyphen; collapse runs of two
  or more hyphens into one (a hyphen followed by a hyphen is dropped); strip the hyphens
  at both ends (here the trailing ones first); fall back to \<open>article\<close> when nothing is
  left.
\<close>

fun collapse_hyphens :: "pystr \<Rightarrow> pystr" where
  "collapse_hyphens [] = []"
| "collapse_hyphens [c] = [c]"
| "collapse_hyphens (c # d # s) =
     (if c = hyphen \<and> d = hyphen then collapse_hyphens (d # s) else c # collapse_hyphens (d # s))"

definition slug_class :: "nat set" where
  "slug_class = {97..122} \<union> {48..57} \<union> {hyphen}"

definition spec_strip :: "pystr \<Rightarrow> pystr" where
  "spec_strip s = dropWhile (\<lambda>c. c = hyphen) (rev (dropWhile (\<lambda>c. c = hyphen) (rev s)))"

definition spec_sanitize :: "(pystr \<Rightarrow> pystr) \<Rightarrow> pystr \<Rightarrow> pystr" where
  "spec_sanitize L s =
     (let r = spec_strip (collapse_hyphens
                (map (\<lambda>c. if c \<in> slug_class then c else hyphen) (py_lower L s)))
      in if r = [] then asc ''article'' else r)"

subsection \<open>Regular expressions\<close>

text \<open>
  The specification states the shape of a slug by a regular expression; a string matches
  when it belongs to the language of the expression (a full match).
\<close>

datatype rexp = Range nat nat | Lit nat | Alt rexp rexp | Seq rexp rexp | Star rexp | Plus rexp

inductive_set star :: "'a list set \<Rightarrow> 'a list set" for A :: "'a list set" where
  star_nil: "[] \<in> star A"
| star_app: "u \<in> A \<Longrightarrow> v \<in> star A \<Longrightarrow> u @ v \<in> star A"

fun lang :: "rexp \<Rightarrow> pystr set" where
  "lang (Range a b) = {[c] | c. a \<le> c \<and> c \<le> b}"
| "lang (Lit a) = {[a]}"
| "lang (Alt r s) = lang r \<union> lang s"
| "lang (Seq r s) = {u @ v | u v. u \<in> lang r \<and> v \<in> lang s}"
| "lang (Star r) = star (lang r)"
| "lang (Plus r) = {u @ v | u v. u \<in> lang r \<and> v \<in> star (lang r)}"

definition alnum_re :: rexp where
  "alnum_re = Alt (Range 97 122) (Range 48 57)"

definition slug_re :: rexp where
  "slug_re = Seq (Plus alnum_re) (Star (Seq (Lit hyphen) (Plus alnum_re)))"

abbreviation tail_re :: rexp where
  "tail_re \<equiv> Seq (Lit hyphen) (Plus alnum_re)"


section \<open>More of Python's string operations\<close>

text \<open>
  Whitespace as \<open>str.strip()\<close> and the \<open>\s\<close> of \<open>re\<close> on a \<open>str\<close> pattern see it: the
  code points for which \<open>str.isspace\<close> holds.
\<close>

definition is_space :: "nat \<Rightarrow> bool" where
  "is_space c = (c \<in> set [9, 10, 11, 12, 13, 28, 29, 30, 31, 32, 133, 160, 5760,
      8192, 8193, 8194, 8195, 8196, 8197, 8198, 8199, 8200, 8201, 8202,
      8232, 8233, 8239, 8287, 12288])"

text \<open>\<open>s.strip()\<close> and \<open>s.rstrip()\<close>.\<close>

definition py_rstrip :: "pystr \<Rightarrow> pystr" where
  "py_rstrip s = rev (dropWhile is_space (rev s))"

definition py_strip :: "pystr \<Rightarrow> pystr" where
  "py_strip s = py_rstrip (dropWhile is_space s)"

text \<open>
  \<open>s.replace(old, new)\<close>: the occurrences of \<open>old\<close> are found from the left and do not
  overlap; each is replaced by \<open>new\<close>, and the text put in is not scanned again. For an
  empty \<open>old\<close> Python puts \<open>new\<close> before every character and at the end.
\<close>

function replace_from :: "pystr \<Rightarrow> pystr \<Rightarrow> pystr \<Rightarrow> pystr" where
  "replace_from old new [] = []"
| "replace_from old new (c # cs) =
     (if old \<noteq> [] \<and> prefix old (c # cs)
      then new @ replace_from old new (drop (length old) (c # cs))
      else c # replace_from old new cs)"
  by pat_completeness auto
termination
  by (relation "measure (\<lambda>(old, new, s). length s)") auto

definition py_replace :: "pystr \<Rightarrow> pystr \<Rightarrow> pystr \<Rightarrow> pystr" where
  "py_replace s old new =
     (if old = [] then new @ concat (map (\<lambda>c. c # new) s) else replace_from old new s)"

text \<open>\<open>sub in s\<close>.\<close>

fun occurs :: "pystr \<Rightarrow> pystr \<Rightarrow> bool" where
  "occurs sub [] = (sub = [])"
| "occurs sub (c # cs) = (prefix sub (c # cs) \<or> occurs sub cs)"

text \<open>\<open>str(n)\<close> for a natural number.\<close>

fun digits_of :: "nat \<Rightarrow> nat \<Rightarrow> pystr" where
  "digits_of 0 n = []"
| "digits_of (Suc k) n = (if n < 10 then [48 + n] else digits_of k (n div 10) @ [48 + n mod 10])"

definition str_nat :: "nat \<Rightarrow> pystr" where
  "str_nat n = digits_of (Suc n) n"

section \<open>Python values and exceptions\<close>

text \<open>
  The values \<open>json.loads\<close> can return. A number keeps its literal text: no claim depends
  on its value. A \<open>dict\<close> is the list of its items in insertion order, with distinct keys.
\<close>

datatype pyval =
    PNone
  | PBool bool
  | PNum pystr
  | PStr pystr
  | PList "pyval list"
  | PDict "(pystr \<times> pyval) list"

type_synonym pydict = "(pystr \<times> pyval) list"

text \<open>\<open>d[k] = v\<close>: an existing key keeps its place and takes the new value.\<close>

fun dict_set :: "pystr \<Rightarrow> pyval \<Rightarrow> pydict \<Rightarrow> pydict" where
  "dict_set k v [] = [(k, v)]"
| "dict_set k v ((k', v') # d) = (if k = k' then (k, v) # d else (k', v') # dict_set k v d)"

text \<open>
  The exceptions of the pipeline. \<open>BackendError\<close> stands for whatever the generation
  backend raises; \<open>OSError\<close> for the failures of the file system.
\<close>

datatype exn =
    JSONDecodeError
  | ValueError_missing_keys "pystr set"
  | AttributeError
  | TypeError
  | KeyError pystr
  | OSError
  | UnicodeEncodeError
  | BackendError nat

section \<open>The JSON decoder (\<open>json.loads\<close>)\<close>

text \<open>
  A model of the decoder of Python's standard library, as a pushdown automaton that reads
  one code point at a time: JSON as the library accepts it (with \<open>NaN\<close>, \<open>Infinity\<close>
  and \<open>-Infinity\<close>, strict strings, surrogate pairs joined, the last of equal keys kept).
  Every rejection is a \<open>JSONDecodeError\<close>. The limits of the interpreter (recursion depth,
  digits of an integer) are not modelled.
\<close>

datatype frame =
    FArr "pyval list"
  | FObj pydict
  | FVal pydict pystr

datatype numphase = NMinus | NZero | NInt | NDot | NFrac | NE | NESign | NExp

datatype mode =
    MValue
  | MValueOrClose
  | MKeyOrClose
  | MKey
  | MColon
  | MAfter
  | MEnd pyval
  | MStr bool pystr "nat option"
  | MEsc bool pystr "nat option"
  | MHex bool pystr "nat option" nat nat
  | MNum numphase pystr
  | MLit pystr pyval
  | MError

type_synonym pstate = "mode \<times> frame list"

definition json_ws :: "nat \<Rightarrow> bool" where
  "json_ws c = (c = 32 \<or> c = 9 \<or> c = 10 \<or> c = 13)"

definition is_digit :: "nat \<Rightarrow> bool" where
  "is_digit c = (48 \<le> c \<and> c \<le> 57)"

definition hex_val :: "nat \<Rightarrow> nat option" where
  "hex_val c =
     (if 48 \<le> c \<and> c \<le> 57 then Some (c - 48)
      else if 97 \<le> c \<and> c \<le> 102 then Some (c - 87)
      else if 65 \<le> c \<and> c \<le> 70 then Some (c - 55)
      else None)"

text \<open>A value is complete: it goes to the enclosing array or object, or it is the result.\<close>

fun complete :: "pyval \<Rightarrow> frame list \<Rightarrow> pstate" where
  "complete v [] = (MEnd v, [])"
| "complete v (FArr xs # st) = (MAfter, FArr (v # xs) # st)"
| "complete v (FVal kvs k # st) = (MAfter, FObj (dict_set k v kvs) # st)"
| "complete v (FObj kvs # st) = (MError, [])"

text \<open>The closing quote of a string: a key waits for its colon, a value is complete.\<close>

fun end_string :: "bool \<Rightarrow> pystr \<Rightarrow> frame list \<Rightarrow> pstate" where
  "end_string False s st = complete (PStr s) st"
| "end_string True s (FObj kvs # st) = (MColon, FVal kvs s # st)"
| "end_string True s st = (MError, [])"

text \<open>Where a value may start.\<close>

definition start_value :: "nat \<Rightarrow> frame list \<Rightarrow> pstate" where
  "start_value c st =
     (if c = 34 then (MStr False [] None, st)
      else if c = 123 then (MKeyOrClose, FObj [] # st)
      else if c = 91 then (MValueOrClose, FArr [] # st)
      else if c = 110 then (MLit (asc ''ull'') PNone, st)
      else if c = 116 then (MLit (asc ''rue'') (PBool True), st)
      else if c = 102 then (MLit (asc ''alse'') (PBool False), st)
      else if c = 78 then (MLit (asc ''aN'') (PNum (asc ''NaN'')), st)
      else if c = 73 then (MLit (asc ''nfinity'') (PNum (asc ''Infinity'')), st)
      else if c = 45 then (MNum NMinus [c], st)
      else if c = 48 then (MNum NZero [c], st)
      else if 49 \<le> c \<and> c \<le> 57 then (MNum NInt [c], st)
      else (MError, []))"

text \<open>Between the tokens.\<close>

fun step_struct :: "nat \<Rightarrow> pstate \<Rightarrow> pstate" where
  "step_struct c (MValue, st) = (if json_ws c then (MValue, st) else start_value c st)"
| "step_struct c (MValueOrClose, st) =
     (if json_ws c then (MValueOrClose, st)
      else if c = 93 then (case st of FArr xs # st' \<Rightarrow> complete (PList []) st' | _ \<Rightarrow> (MError, []))
      else start_value c st)"
| "step_struct c (MKeyOrClose, st) =
     (if json_ws c then (MKeyOrClose, st)
      else if c = 34 then (MStr True [] None, st)
      else if c = 125 then (case st of FObj kvs # st' \<Rightarrow> complete (PDict kvs) st' | _ \<Rightarrow> (MError, []))
      else (MError, []))"
| "step_struct c (MKey, st) =
     (if json_ws c then (MKey, st)
      else if c = 34 then (MStr True [] None, st)
      else (MError, []))"
| "step_struct c (MColon, st) =
     (if json_ws c then (MColon, st)
      else if c = 58 then (MValue, st)
      else (MError, []))"
| "step_struct c (MAfter, st) =
     (if json_ws c then (MAfter, st)
      else (case st of
              FArr xs # st' \<Rightarrow>
                (if c = 44 then (MValue, st)
                 else if c = 93 then complete (PList (rev xs)) st'
                 else (MError, []))
            | FObj kvs # st' \<Rightarrow>
                (if c = 44 then (MKey, st)
                 else if c = 125 then complete (PDict kvs) st'
                 else (MError, []))
            | _ \<Rightarrow> (MError, [])))"
| "step_struct c (MEnd v, st) = (if json_ws c then (MEnd v, st) else (MError, []))"
| "step_struct c (m, st) = (MError, [])"

text \<open>Inside a string: a pending high surrogate \<open>h\<close> that found no partner is kept as it is.\<close>

definition flush :: "nat option \<Rightarrow> pystr \<Rightarrow> pystr" where
  "flush h acc = (case h of None \<Rightarrow> acc | Some x \<Rightarrow> x # acc)"

definition str_char :: "bool \<Rightarrow> pystr \<Rightarrow> nat \<Rightarrow> frame list \<Rightarrow> pstate" where
  "str_char k acc c st =
     (if c = 34 then end_string k (rev acc) st
      else if c = 92 then (MEsc k acc None, st)
      else if c < 32 then (MError, [])
      else (MStr k (c # acc) None, st))"

definition esc_char :: "bool \<Rightarrow> pystr \<Rightarrow> nat \<Rightarrow> frame list \<Rightarrow> pstate" where
  "esc_char k acc c st =
     (if c = 34 \<or> c = 92 \<or> c = 47 then (MStr k (c # acc) None, st)
      else if c = 98 then (MStr k (8 # acc) None, st)
      else if c = 102 then (MStr k (12 # acc) None, st)
      else if c = 110 then (MStr k (10 # acc) None, st)
      else if c = 114 then (MStr k (13 # acc) None, st)
      else if c = 116 then (MStr k (9 # acc) None, st)
      else if c = 117 then (MHex k acc None 0 0, st)
      else (MError, []))"

definition fresh_unit :: "bool \<Rightarrow> pystr \<Rightarrow> nat \<Rightarrow> frame list \<Rightarrow> pstate" where
  "fresh_unit k acc u st =
     (if 55296 \<le> u \<and> u \<le> 56319 then (MStr k acc (Some u), st) else (MStr k (u # acc) None, st))"

definition hex_done :: "bool \<Rightarrow> pystr \<Rightarrow> nat option \<Rightarrow> nat \<Rightarrow> frame list \<Rightarrow> pstate" where
  "hex_done k acc h u st =
     (case h of
        None \<Rightarrow> fresh_unit k acc u st
      | Some x \<Rightarrow>
          (if 56320 \<le> u \<and> u \<le> 57343
           then (MStr k ((65536 + (x - 55296) * 1024 + (u - 56320)) # acc) None, st)
           else fresh_unit k (x # acc) u st))"

text \<open>Inside a number: the phases of \<open>-?(0|[1-9]\d*)(\.\d+)?([eE][-+]?\d+)?\<close>.\<close>

definition num_complete :: "numphase \<Rightarrow> bool" where
  "num_complete p = (p = NZero \<or> p = NInt \<or> p = NFrac \<or> p = NExp)"

definition num_next :: "numphase \<Rightarrow> nat \<Rightarrow> numphase option" where
  "num_next p c =
     (case p of
        NMinus \<Rightarrow> (if c = 48 then Some NZero else if 49 \<le> c \<and> c \<le> 57 then Some NInt else None)
      | NZero \<Rightarrow> (if c = 46 then Some NDot else if c = 101 \<or> c = 69 then Some NE else None)
      | NInt \<Rightarrow> (if is_digit c then Some NInt else if c = 46 then Some NDot
                 else if c = 101 \<or> c = 69 then Some NE else None)
      | NDot \<Rightarrow> (if is_digit c then Some NFrac else None)
      | NFrac \<Rightarrow> (if is_digit c then Some NFrac else if c = 101 \<or> c = 69 then Some NE else None)
      | NE \<Rightarrow> (if c = 43 \<or> c = 45 then Some NESign else if is_digit c then Some NExp else None)
      | NESign \<Rightarrow> (if is_digit c then Some NExp else None)
      | NExp \<Rightarrow> (if is_digit c then Some NExp else None))"

fun step :: "nat \<Rightarrow> pstate \<Rightarrow> pstate" where
  "step c (MStr k acc h, st) =
     (case h of
        None \<Rightarrow> str_char k acc c st
      | Some x \<Rightarrow> (if c = 92 then (MEsc k acc h, st) else str_char k (x # acc) c st))"
| "step c (MEsc k acc h, st) =
     (if c = 117 then (MHex k acc h 0 0, st) else esc_char k (flush h acc) c st)"
| "step c (MHex k acc h n u, st) =
     (case hex_val c of
        None \<Rightarrow> (MError, [])
      | Some d \<Rightarrow> (if n = 3 then hex_done k acc h (u * 16 + d) st
                   else (MHex k acc h (Suc n) (u * 16 + d), st)))"
| "step c (MNum p lit, st) =
     (case num_next p c of
        Some p' \<Rightarrow> (MNum p' (c # lit), st)
      | None \<Rightarrow>
          (if num_complete p then step_struct c (complete (PNum (rev lit)) st)
           else if p = NMinus \<and> c = 73 then (MLit (asc ''nfinity'') (PNum (asc ''-Infinity'')), st)
           else (MError, [])))"
| "step c (MLit r v, st) =
     (case r of
        [] \<Rightarrow> (MError, [])
      | x # r' \<Rightarrow> (if c \<noteq> x then (MError, []) else if r' = [] then complete v st else (MLit r' v, st)))"
| "step c (m, st) = step_struct c (m, st)"

fun finish :: "pstate \<Rightarrow> exn + pyval" where
  "finish (MEnd v, st) = Inr v"
| "finish (MNum p lit, st) =
     (if num_complete p
      then (case complete (PNum (rev lit)) st of (MEnd v, _) \<Rightarrow> Inr v | _ \<Rightarrow> Inl JSONDecodeError)
      else Inl JSONDecodeError)"
| "finish (m, st) = Inl JSONDecodeError"

definition json_loads :: "pystr \<Rightarrow> exn + pyval" where
  "json_loads s = finish (foldl (\<lambda>q c. step c q) (MValue, []) s)"

section \<open>The runtime outside the repository\<close>

text \<open>
  What the program calls and does not define: the Unicode tables behind \<open>str.lower\<close>, the
  JSON decoder, and the generation backend (\<open>generate_content\<close> followed by
  \<open>response.text\<close>: the text of the answer to a prompt, or an exception).
\<close>

record runtime =
  unicode_lower :: "pystr \<Rightarrow> pystr"
  loads :: "pystr \<Rightarrow> exn + pyval"
  generate_content :: "pystr \<Rightarrow> exn + pystr"

section \<open>Gemini helpers\<close>

text \<open>\<open>"\n".join(lines)\<close>.\<close>

fun join_lines :: "pystr list \<Rightarrow> pystr" where
  "join_lines [] = []"
| "join_lines [l] = l"
| "join_lines (l # ls) = l @ [10] @ join_lines ls"

definition build_prompt :: "pystr \<Rightarrow> pystr" where
  "build_prompt topic = join_lines [
     asc ''You are a skilled human journalist writing for a general audience.'',
     asc ''Write a compelling, emotionally engaging article about the following topic or headline.'',
     [],
     asc ''Topic: '' @ topic,
     [],
     asc ''Requirements:'',
     asc ''- Length: 800-1200 words'',
     asc ''- Style: human storytelling, emotional, engaging; avoid robotic or listicle tone'',
     asc ''- Structure: an introduction, at least three sections each with an H2 heading and'',
     asc ''  one or more H3 subheadings where appropriate, and a conclusion'',
     asc ''- Return a single JSON object with EXACTLY these keys:'',
     asc ''  \"title\": article title (string)'',
     asc ''  \"slug\": URL-safe slug, lowercase, hyphens only (string)'',
     asc ''  \"meta_description\": 150-160 characters summary for SEO (string)'',
     asc ''  \"keywords\": comma-separated SEO keywords, 5-8 keywords (string)'',
     asc ''  \"html_content\": the article body as clean HTML using <p>, <h2>, and <h3> tags only'',
     asc ''    (NO <html>, <head>, <body>, or <article> wrappers) (string)'',
     [],
     asc ''Return ONLY the JSON object with no markdown fences or extra text.'']"

text \<open>
  \<open>re.sub(r"^```(?:json)?\s*", "", raw)\<close>: at the start of the string only, three
  backticks, then \<open>json\<close> if it is there, then all the whitespace that follows.
\<close>

definition sub_leading_fence :: "pystr \<Rightarrow> pystr" where
  "sub_leading_fence raw =
     (if prefix (asc ''```'') raw
      then (let r = drop 3 raw;
                r' = (if prefix (asc ''json'') r then drop 4 r else r)
            in dropWhile is_space r')
      else raw)"

text \<open>
  \<open>re.sub(r"\s*```$", "", raw)\<close>: three backticks at the end of the string (or, as \<open>$\<close>
  also allows, before a newline that ends the string), with all the whitespace before
  them.
\<close>

definition sub_trailing_fence :: "pystr \<Rightarrow> pystr" where
  "sub_trailing_fence raw =
     (if suffix (asc ''```'') raw
      then py_rstrip (take (length raw - 3) raw)
      else if suffix (asc ''```'' @ [10]) raw
      then py_rstrip (take (length raw - 4) raw) @ [10]
      else raw)"

definition required :: "pystr set" where
  "required = {asc ''title'', asc ''slug'', asc ''meta_description'', asc ''keywords'',
               asc ''html_content''}"

text \<open>
  \<open>generate_article\<close>: the three assignments to \<open>raw\<close> are \<open>clean_response\<close>. A decoded
  value that is no \<open>dict\<close> has no \<open>keys\<close>: \<open>data.keys()\<close> raises \<open>AttributeError\<close>.
\<close>

definition clean_response :: "pystr \<Rightarrow> pystr" where
  "clean_response text =
     (let raw = py_strip text;
          raw = sub_leading_fence raw;
          raw = sub_trailing_fence raw
      in raw)"

definition generate_article :: "runtime \<Rightarrow> pystr \<Rightarrow> exn + pydict" where
  "generate_article rt topic =
     (case generate_content rt (build_prompt topic) of
        Inl e \<Rightarrow> Inl e
      | Inr text \<Rightarrow>
          (case loads rt (clean_response text) of
             Inl e \<Rightarrow> Inl e
           | Inr (PDict data) \<Rightarrow>
               (let missing = required - set (map fst data)
                in if missing \<noteq> {} then Inl (ValueError_missing_keys missing) else Inr data)
           | Inr _ \<Rightarrow> Inl AttributeError))"

section \<open>The file system\<close>

text \<open>
  Paths are relative to the directory of the program, which exists. A path holds a
  directory or a file with its text; encodings and newline conventions are not modelled.
\<close>

datatype node = Dir | File pystr

type_synonym filesystem = "pystr \<Rightarrow> node option"

definition TEMPLATE_PATH :: pystr where
  "TEMPLATE_PATH = asc ''templates/template.html''"

definition BLOG_DIR :: pystr where
  "BLOG_DIR = asc ''blog''"

text \<open>\<open>path.read_text(encoding="utf-8")\<close>.\<close>

definition read_text :: "filesystem \<Rightarrow> pystr \<Rightarrow> exn + pystr" where
  "read_text fs p = (case fs p of Some (File t) \<Rightarrow> Inr t | _ \<Rightarrow> Inl OSError)"

text \<open>\<open>path.mkdir(parents=True, exist_ok=True)\<close>: fails only where a file has the name.\<close>

definition mkdir :: "filesystem \<Rightarrow> pystr \<Rightarrow> filesystem \<times> (exn + unit)" where
  "mkdir fs p = (case fs p of Some (File t) \<Rightarrow> (fs, Inl OSError) | _ \<Rightarrow> (fs(p \<mapsto> Dir), Inr ()))"

text \<open>
  \<open>path.write_text(text, encoding="utf-8")\<close>: the file is opened for writing, which
  creates or empties it, and the text is written. Text with a surrogate code point
  cannot be encoded: the write raises and leaves the file empty.
\<close>

definition encodable :: "pystr \<Rightarrow> bool" where
  "encodable t = list_all (\<lambda>c. c < 55296 \<or> 57343 < c) t"

definition write_text :: "filesystem \<Rightarrow> pystr \<Rightarrow> pystr \<Rightarrow> filesystem \<times> (exn + unit)" where
  "write_text fs p t =
     (case fs p of
        Some Dir \<Rightarrow> (fs, Inl OSError)
      | _ \<Rightarrow> (if encodable t then (fs(p \<mapsto> File t), Inr ())
              else (fs(p \<mapsto> File []), Inl UnicodeEncodeError)))"

section \<open>HTML generation\<close>

datatype month = January | February | March | April | May | June | July | August
  | September | October | November | December

record date =
  year :: nat
  month :: month
  day :: nat

fun month_name :: "month \<Rightarrow> pystr" where
  "month_name January = asc ''January''"
| "month_name February = asc ''February''"
| "month_name March = asc ''March''"
| "month_name April = asc ''April''"
| "month_name May = asc ''May''"
| "month_name June = asc ''June''"
| "month_name July = asc ''July''"
| "month_name August = asc ''August''"
| "month_name September = asc ''September''"
| "month_name October = asc ''October''"
| "month_name November = asc ''November''"
| "month_name December = asc ''December''"

text \<open>\<open>now.strftime("%B %d, %Y")\<close>, in the C locale and for a year of four digits.\<close>

definition strftime_BdY :: "date \<Rightarrow> pystr" where
  "strftime_BdY d =
     month_name (month d) @ asc '' '' @
     (if day d < 10 then asc ''0'' else []) @ str_nat (day d) @ asc '', '' @ str_nat (year d)"

text \<open>\<open>data[k]\<close>.\<close>

definition getitem :: "pydict \<Rightarrow> pystr \<Rightarrow> exn + pyval" where
  "getitem d k = (case map_of d k of None \<Rightarrow> Inl (KeyError k) | Some v \<Rightarrow> Inr v)"

text \<open>
  The dictionary \<open>replacements\<close> of \<open>render_html\<close>, as the list of its items in the order
  they are written.
\<close>

fun getitems :: "pydict \<Rightarrow> (pystr \<times> pystr) list \<Rightarrow> exn + (pystr \<times> pyval) list" where
  "getitems d [] = Inr []"
| "getitems d ((ph, k) # r) =
     (case getitem d k of
        Inl e \<Rightarrow> Inl e
      | Inr v \<Rightarrow> (case getitems d r of Inl e \<Rightarrow> Inl e | Inr vs \<Rightarrow> Inr ((ph, v) # vs)))"

definition replacements :: "date \<Rightarrow> pydict \<Rightarrow> exn + (pystr \<times> pyval) list" where
  "replacements now d =
     (case getitems d [(asc ''{{ title }}'', asc ''title''),
                       (asc ''{{ slug }}'', asc ''slug''),
                       (asc ''{{ meta_description }}'', asc ''meta_description''),
                       (asc ''{{ keywords }}'', asc ''keywords''),
                       (asc ''{{ content }}'', asc ''html_content'')] of
        Inl e \<Rightarrow> Inl e
      | Inr vs \<Rightarrow> Inr (vs @ [(asc ''{{ date }}'', PStr (strftime_BdY now)),
                              (asc ''{{ year }}'', PStr (str_nat (year now)))]))"

text \<open>
  The loop \<open>template = template.replace(placeholder, value)\<close>; \<open>str.replace\<close> takes
  strings only and raises \<open>TypeError\<close> on any other value.
\<close>

fun replace_all :: "pystr \<Rightarrow> (pystr \<times> pyval) list \<Rightarrow> exn + pystr" where
  "replace_all template [] = Inr template"
| "replace_all template ((ph, v) # r) =
     (case v of PStr s \<Rightarrow> replace_all (py_replace template ph s) r | _ \<Rightarrow> Inl TypeError)"

definition render_html :: "filesystem \<Rightarrow> date \<Rightarrow> pydict \<Rightarrow> exn + pystr" where
  "render_html fs now d =
     (case read_text fs TEMPLATE_PATH of
        Inl e \<Rightarrow> Inl e
      | Inr template \<Rightarrow>
          (case replacements now d of Inl e \<Rightarrow> Inl e | Inr reps \<Rightarrow> replace_all template reps))"

text \<open>\<open>BLOG_DIR / f"{slug}.html"\<close>.\<close>

definition blog_path :: "pystr \<Rightarrow> pystr" where
  "blog_path slug = BLOG_DIR @ asc ''/'' @ slug @ asc ''.html''"

text \<open>
  \<open>save_article\<close>: the file system after the call, and the path written or the exception.
  A \<open>slug\<close> that is no string has no \<open>lower\<close>: \<open>AttributeError\<close>.
\<close>

definition save_article ::
  "(pystr \<Rightarrow> pystr) \<Rightarrow> filesystem \<Rightarrow> date \<Rightarrow> pydict \<Rightarrow> filesystem \<times> (exn + pystr)" where
  "save_article L fs now d =
     (case mkdir fs BLOG_DIR of
        (fs1, Inl e) \<Rightarrow> (fs1, Inl e)
      | (fs1, Inr u) \<Rightarrow>
          (case getitem d (asc ''slug'') of
             Inl e \<Rightarrow> (fs1, Inl e)
           | Inr (PStr raw) \<Rightarrow>
               (let slug = sanitize_slug L raw;
                    output_path = blog_path slug
                in case render_html fs1 now d of
                     Inl e \<Rightarrow> (fs1, Inl e)
                   | Inr doc \<Rightarrow>
                       (case write_text fs1 output_path doc of
                          (fs2, Inl e) \<Rightarrow> (fs2, Inl e)
                        | (fs2, Inr u) \<Rightarrow> (fs2, Inr output_path)))
           | Inr _ \<Rightarrow> (fs1, Inl AttributeError)))"

section \<open>Telegram command handlers\<close>

text \<open>
  The conversation of one user is idle (no conversation is stored for the user) or waits
  for a topic (\<open>WAITING_FOR_TOPIC\<close>). A handler returns the next state, where
  \<open>ConversationHandler.END\<close> is the idle state, or raises. A reply is the text handed to
  \<open>reply_text\<close>; the transport that delivers it is outside the program and does not fail
  here.
\<close>

datatype conv = Idle | AwaitingTopic

datatype outcome = Returned conv | Raised exn

definition msg_welcome :: pystr where
  "msg_welcome =
     [128075] @ asc '' Welcome to *NoMoreJokes Bot*!'' @ [10, 10] @
     asc ''Use /generate or /publish and then send me a news headline or trending topic '' @
     asc ''to generate an SEO-optimized article.'' @ [10, 10] @
     asc ''Use /cancel at any time to stop.''"

definition msg_ask_topic :: pystr where
  "msg_ask_topic =
     [128240] @ asc '' Send me a *news headline or trending topic* and I'' @ [39] @
     asc ''ll write a full article for you.''"

definition msg_empty_topic :: pystr where
  "msg_empty_topic = asc ''Please send a non-empty topic.''"

definition msg_generating :: pystr where
  "msg_generating =
     [9203] @ asc '' Generating your article'' @ [8230] @ asc '' this may take a moment.''"

definition msg_parse_failure :: pystr where
  "msg_parse_failure =
     [10060] @ asc '' Could not parse the AI response. Please try again later.''"

definition msg_failure :: pystr where
  "msg_failure =
     [10060] @ asc '' An error occurred while generating the article. Please try again later.''"

definition msg_cancelled :: pystr where
  "msg_cancelled = [10062] @ asc '' Cancelled. Use /generate or /publish to start again.''"

definition BASE_URL :: pystr where
  "BASE_URL = asc ''https://senlodigi.github.io/NoMoreJokes/blog/''"

text \<open>
  A value inside an f-string. Only strings reach the success reply (lemma
  \<open>save_article_strings\<close> below); the text Python prints for the other values is not
  modelled.
\<close>

definition py_format :: "pyval \<Rightarrow> pystr" where
  "py_format v = (case v of PStr s \<Rightarrow> s | _ \<Rightarrow> [])"

definition msg_success :: "pyval \<Rightarrow> pyval \<Rightarrow> pyval \<Rightarrow> pystr \<Rightarrow> pystr \<Rightarrow> pystr" where
  "msg_success title meta keywords slug blog_url =
     [9989] @ asc '' *Article generated!*'' @ [10, 10] @
     [128204] @ asc '' *Title:* '' @ py_format title @ [10] @
     [128221] @ asc '' *Meta:* '' @ py_format meta @ [10] @
     [128273] @ asc '' *Keywords:* '' @ py_format keywords @ [10] @
     [128193] @ asc '' *Saved to:* `blog/'' @ slug @ asc ''.html`'' @ [10] @
     [127760] @ asc '' *URL:* '' @ blog_url"

type_synonym reaction = "filesystem \<times> pystr list \<times> outcome"

definition start_handler :: "conv \<Rightarrow> filesystem \<Rightarrow> reaction" where
  "start_handler c fs = (fs, [msg_welcome], Returned c)"

definition generate_handler :: "filesystem \<Rightarrow> reaction" where
  "generate_handler fs = (fs, [msg_ask_topic], Returned AwaitingTopic)"

definition cancel_handler :: "filesystem \<Rightarrow> reaction" where
  "cancel_handler fs = (fs, [msg_cancelled], Returned Idle)"

text \<open>The two \<open>except\<close> clauses of \<open>topic_received\<close>.\<close>

definition failure_reply :: "exn \<Rightarrow> pystr" where
  "failure_reply e = (if e = JSONDecodeError then msg_parse_failure else msg_failure)"

text \<open>The replies after a successful \<open>save_article\<close>, which are outside the \<open>try\<close>.\<close>

definition success_reaction :: "(pystr \<Rightarrow> pystr) \<Rightarrow> filesystem \<Rightarrow> pydict \<Rightarrow> reaction" where
  "success_reaction L fs d =
     (case getitem d (asc ''slug'') of
        Inl e \<Rightarrow> (fs, [msg_generating], Raised e)
      | Inr (PStr raw) \<Rightarrow>
          (let slug = sanitize_slug L raw;
               blog_url = BASE_URL @ slug @ asc ''.html''
           in case (getitem d (asc ''title''), getitem d (asc ''meta_description''),
                    getitem d (asc ''keywords'')) of
                (Inr t, Inr m, Inr k) \<Rightarrow>
                  (fs, [msg_generating, msg_success t m k slug blog_url], Returned Idle)
              | (Inl e, _, _) \<Rightarrow> (fs, [msg_generating], Raised e)
              | (_, Inl e, _) \<Rightarrow> (fs, [msg_generating], Raised e)
              | (_, _, Inl e) \<Rightarrow> (fs, [msg_generating], Raised e))
      | Inr _ \<Rightarrow> (fs, [msg_generating], Raised AttributeError))"

definition topic_received :: "runtime \<Rightarrow> date \<Rightarrow> filesystem \<Rightarrow> pystr \<Rightarrow> reaction" where
  "topic_received rt now fs text =
     (let topic = py_strip text
      in if topic = [] then (fs, [msg_empty_topic], Returned AwaitingTopic)
         else (case generate_article rt topic of
                 Inl e \<Rightarrow> (fs, [msg_generating, failure_reply e], Returned Idle)
               | Inr d \<Rightarrow>
                   (case save_article (unicode_lower rt) fs now d of
                      (fs1, Inl e) \<Rightarrow> (fs1, [msg_generating, failure_reply e], Returned Idle)
                    | (fs1, Inr path) \<Rightarrow> success_reaction (unicode_lower rt) fs1 d)))"

section \<open>The dispatcher built in \<open>main\<close>\<close>

text \<open>
  An update is a command (its name, without the slash), a text message that is no
  command, or anything else. The application tries its handlers in the order they were
  added: the \<open>start\<close> command handler, then the conversation handler. A conversation
  handler offers its entry points only to a user without a conversation, and its state
  handlers and fallbacks only to a user inside one. An update no handler takes is
  dropped. When a handler raises, the state of the conversation stays as it was.
\<close>

datatype update = Command pystr | TextMessage pystr | OtherUpdate

record session =
  state :: conv
  files :: filesystem

definition settle :: "conv \<Rightarrow> reaction \<Rightarrow> session \<times> pystr list" where
  "settle c r =
     (case r of (fs, replies, out) \<Rightarrow>
        (\<lparr>state = (case out of Returned c' \<Rightarrow> c' | Raised e \<Rightarrow> c), files = fs\<rparr>, replies))"

definition handle_update :: "runtime \<Rightarrow> date \<Rightarrow> session \<Rightarrow> update \<Rightarrow> session \<times> pystr list" where
  "handle_update rt now s u =
     (if u = Command (asc ''start'') then settle (state s) (start_handler (state s) (files s))
      else (case state s of
              Idle \<Rightarrow>
                (if u = Command (asc ''generate'') \<or> u = Command (asc ''publish'')
                 then settle Idle (generate_handler (files s))
                 else (s, []))
            | AwaitingTopic \<Rightarrow>
                (case u of
                   TextMessage text \<Rightarrow> settle AwaitingTopic (topic_received rt now (files s) text)
                 | Command name \<Rightarrow>
                     (if name = asc ''cancel'' then settle AwaitingTopic (cancel_handler (files s))
                      else (s, []))
                 | OtherUpdate \<Rightarrow> (s, []))))"

text \<open>A run of the dispatcher over a sequence of updates, with the replies in order.\<close>

fun run :: "runtime \<Rightarrow> date \<Rightarrow> session \<Rightarrow> update list \<Rightarrow> session \<times> pystr list" where
  "run rt now s [] = (s, [])"
| "run rt now s (u # us) =
     (case handle_update rt now s u of
        (s1, r1) \<Rightarrow> (case run rt now s1 us of (s2, r2) \<Rightarrow> (s2, r1 @ r2)))"

section \<open>Values for the worked examples\<close>

text \<open>
  A runtime whose backend answers every prompt with the given text, a date, and a file
  system that holds nothing but a template.
\<close>

definition fixed_backend :: "pystr \<Rightarrow> runtime" where
  "fixed_backend text =
     \<lparr>unicode_lower = id, loads = json_loads, generate_content = (\<lambda>prompt. Inr text)\<rparr>"

definition a_date :: date where
  "a_date = \<lparr>year = 2024, month = March, day = 5\<rparr>"

definition template_fs :: "pystr \<Rightarrow> filesystem" where
  "template_fs t = (\<lambda>p. if p = TEMPLATE_PATH then Some (File t) else None)"

definition example_json :: pystr where
  "example_json = asc ''{\"title\":\"T\",\"slug\":\"s\",\"meta_description\":\"M\",\"keywords\":\"k\",\"html_content\":\"<p>x</p>\"}''"

definition example_record :: pydict where
  "example_record = [(asc ''title'', PStr (asc ''T'')), (asc ''slug'', PStr (asc ''s'')),
     (asc ''meta_description'', PStr (asc ''M'')), (asc ''keywords'', PStr (asc ''k'')),
     (asc ''html_content'', PStr (asc ''<p>x</p>''))]"

section \<open>Properties of the slug sanitizer\<close>

lemma sub_non_slug_all: "list_all slug_char (sub_non_slug s)"
  by (induction s) (auto simp: sub_non_slug_def slug_char_def)

lemma sub_hyphen_runs_Nil_iff: "sub_hyphen_runs s = [] \<longleftrightarrow> s = []"
  by (cases s) auto

lemma hd_sub_hyphen_runs: "s \<noteq> [] \<Longrightarrow> hd (sub_hyphen_runs s) = hd s"
  by (cases s) auto

lemma sub_hyphen_runs_all: "list_all P s \<Longrightarrow> list_all P (sub_hyphen_runs s)"
proof (induction s rule: sub_hyphen_runs.induct)
  case 1
  then show ?case by simp
next
  case (2 c cs)
  have "list_all P (dropWhile (\<lambda>d. d = hyphen) cs)"
    using 2(3) by (auto simp: list_all_iff dest: set_dropWhileD)
  with 2 show ?case by auto
qed

lemma no_double_Cons: "no_double (c # s) = ((s = [] \<or> c \<noteq> hyphen \<or> hd s \<noteq> hyphen) \<and> no_double s)"
  by (cases s) auto

lemma sub_hyphen_runs_no_double: "no_double (sub_hyphen_runs s)"
proof (induction s rule: sub_hyphen_runs.induct)
  case 1
  then show ?case by simp
next
  case (2 c cs)
  show ?case
  proof (cases "c = hyphen \<and> cs \<noteq> [] \<and> hd cs = hyphen")
    case True
    let ?r = "dropWhile (\<lambda>d. d = hyphen) cs"
    have IH: "no_double (sub_hyphen_runs ?r)"
      using True 2(1) by simp
    have eq: "sub_hyphen_runs (c # cs) = hyphen # sub_hyphen_runs ?r"
      using True by simp
    show ?thesis
    proof (cases "?r = []")
      case True
      then show ?thesis by (simp only: eq) simp
    next
      case False
      then have "hd ?r \<noteq> hyphen"
        using hd_dropWhile[of "\<lambda>d. d = hyphen" cs] by simp
      moreover have "hd (sub_hyphen_runs ?r) = hd ?r"
        using False by (rule hd_sub_hyphen_runs)
      ultimately have "hd (sub_hyphen_runs ?r) \<noteq> hyphen"
        by (simp only:) simp
      with IH show ?thesis
        by (simp only: eq no_double_Cons) simp
    qed
  next
    case False
    then have eq: "sub_hyphen_runs (c # cs) = c # sub_hyphen_runs cs"
      by auto
    have IH: "no_double (sub_hyphen_runs cs)"
      using False 2(2) by simp
    show ?thesis
    proof (cases "cs = []")
      case True
      then show ?thesis by simp
    next
      case ne: False
      then have "hd (sub_hyphen_runs cs) = hd cs"
        by (rule hd_sub_hyphen_runs)
      with False IH show ?thesis
        by (simp only: eq no_double_Cons) auto
    qed
  qed
qed

lemma no_double_append:
  "no_double (xs @ ys) =
     (no_double xs \<and> no_double ys \<and> (xs = [] \<or> ys = [] \<or> last xs \<noteq> hyphen \<or> hd ys \<noteq> hyphen))"
proof (induction xs)
  case Nil
  then show ?case by simp
next
  case (Cons a xs)
  show ?case
  proof (cases xs)
    case Nil
    then show ?thesis by (cases ys) auto
  next
    case (Cons b zs)
    with Cons.IH show ?thesis by auto
  qed
qed

lemma no_double_rev: "no_double (rev s) = no_double s"
proof (induction s)
  case Nil
  then show ?case by simp
next
  case (Cons a s)
  show ?case
    by (cases s) (use Cons in \<open>auto simp: no_double_append no_double_Cons last_rev hd_rev\<close>)
qed

lemma no_double_dropWhile: "no_double s \<Longrightarrow> no_double (dropWhile P s)"
proof (induction s)
  case Nil
  then show ?case by simp
next
  case (Cons a s)
  then show ?case by (auto simp: no_double_Cons)
qed

lemma strip_hyphens_no_double: "no_double s \<Longrightarrow> no_double (strip_hyphens s)"
  by (simp add: strip_hyphens_def no_double_rev no_double_dropWhile)

lemma list_all_dropWhile: "list_all P s \<Longrightarrow> list_all P (dropWhile Q s)"
  by (induction s) auto

lemma strip_hyphens_all: "list_all P s \<Longrightarrow> list_all P (strip_hyphens s)"
  by (simp add: strip_hyphens_def list_all_dropWhile)

lemma strip_hyphens_last:
  "strip_hyphens s \<noteq> [] \<Longrightarrow> last (strip_hyphens s) \<noteq> hyphen"
  using hd_dropWhile[of "\<lambda>c. c = hyphen" "rev (dropWhile (\<lambda>c. c = hyphen) s)"]
  by (simp add: strip_hyphens_def last_rev)

lemma last_dropWhile_ne: "dropWhile P xs \<noteq> [] \<Longrightarrow> last (dropWhile P xs) = last xs"
  by (induction xs) (auto split: if_splits)

lemma strip_hyphens_hd:
  assumes "strip_hyphens s \<noteq> []"
  shows "hd (strip_hyphens s) \<noteq> hyphen"
proof -
  let ?l = "dropWhile (\<lambda>c. c = hyphen) s"
  from assms have ne: "dropWhile (\<lambda>c. c = hyphen) (rev ?l) \<noteq> []"
    by (simp add: strip_hyphens_def)
  have l: "?l \<noteq> []"
  proof
    assume "?l = []"
    then have "dropWhile (\<lambda>c. c = hyphen) (rev ?l) = []" by (simp only: rev.simps dropWhile.simps)
    with ne show False by (simp only:)
  qed
  have "hd (strip_hyphens s) = last (dropWhile (\<lambda>c. c = hyphen) (rev ?l))"
    using ne by (simp add: strip_hyphens_def hd_rev)
  also have "\<dots> = last (rev ?l)"
    using ne by (rule last_dropWhile_ne)
  also have "\<dots> = hd ?l"
    using l by (simp add: last_rev)
  finally show ?thesis
    using hd_dropWhile[OF l] by simp
qed

lemma is_slug_article: "is_slug (asc ''article'')"
  by (simp add: is_slug_def asc_def slug_char_def)

lemma sanitize_slug_is_slug: "is_slug (sanitize_slug L s)"
proof -
  let ?s3 = "sub_hyphen_runs (sub_non_slug (py_lower L s))"
  have a: "list_all slug_char ?s3"
    by (rule sub_hyphen_runs_all) (rule sub_non_slug_all)
  have b: "no_double ?s3"
    by (rule sub_hyphen_runs_no_double)
  show ?thesis
  proof (cases "strip_hyphens ?s3 = []")
    case True
    then show ?thesis by (simp add: sanitize_slug_def is_slug_article)
  next
    case False
    then have "sanitize_slug L s = strip_hyphens ?s3"
      by (simp add: sanitize_slug_def)
    with False a b show ?thesis
      by (simp add: is_slug_def strip_hyphens_all strip_hyphens_no_double
          strip_hyphens_hd strip_hyphens_last)
  qed
qed

lemma py_lower_slug: "list_all slug_char s \<Longrightarrow> py_lower L s = s"
proof -
  assume a: "list_all slug_char s"
  then have "list_all (\<lambda>c. c < 128) s"
    by (auto simp: list_all_iff slug_char_def)
  moreover have "map ascii_lower s = s"
    using a by (induction s) (auto simp: slug_char_def ascii_lower_def)
  ultimately show ?thesis by (simp add: py_lower_def)
qed

lemma sub_non_slug_id: "list_all slug_char s \<Longrightarrow> sub_non_slug s = s"
  by (induction s) (auto simp: sub_non_slug_def)

lemma sub_hyphen_runs_id: "no_double s \<Longrightarrow> sub_hyphen_runs s = s"
proof (induction s rule: sub_hyphen_runs.induct)
  case 1
  then show ?case by simp
next
  case (2 c cs)
  then show ?case by (cases cs) auto
qed

lemma strip_hyphens_id:
  "s \<noteq> [] \<Longrightarrow> hd s \<noteq> hyphen \<Longrightarrow> last s \<noteq> hyphen \<Longrightarrow> strip_hyphens s = s"
proof -
  assume a: "s \<noteq> []" "hd s \<noteq> hyphen" "last s \<noteq> hyphen"
  then have "dropWhile (\<lambda>c. c = hyphen) s = s"
    by (cases s) auto
  moreover have "dropWhile (\<lambda>c. c = hyphen) (rev s) = rev s"
    using a by (cases "rev s") (auto simp: hd_rev dest: arg_cong[where f = hd])
  ultimately show ?thesis by (simp add: strip_hyphens_def)
qed

lemma sanitize_slug_fixes_slug: "is_slug s \<Longrightarrow> sanitize_slug L s = s"
  by (simp add: is_slug_def sanitize_slug_def py_lower_slug sub_non_slug_id
      sub_hyphen_runs_id strip_hyphens_id)

lemma collapse_hyphens_run:
  "collapse_hyphens (hyphen # cs) = hyphen # collapse_hyphens (dropWhile (\<lambda>d. d = hyphen) cs)"
proof (induction cs)
  case Nil
  then show ?case by simp
next
  case (Cons d cs)
  then show ?case by (cases "d = hyphen") simp_all
qed

lemma collapse_hyphens_other:
  "\<not> (c = hyphen \<and> cs \<noteq> [] \<and> hd cs = hyphen) \<Longrightarrow> collapse_hyphens (c # cs) = c # collapse_hyphens cs"
  by (cases cs) auto

lemma sub_hyphen_runs_collapse: "sub_hyphen_runs s = collapse_hyphens s"
proof (induction s rule: sub_hyphen_runs.induct)
  case 1
  then show ?case by simp
next
  case (2 c cs)
  show ?case
  proof (cases "c = hyphen \<and> cs \<noteq> [] \<and> hd cs = hyphen")
    case True
    then have "sub_hyphen_runs (c # cs) = hyphen # collapse_hyphens (dropWhile (\<lambda>d. d = hyphen) cs)"
      using 2(1) by simp
    also have "\<dots> = collapse_hyphens (c # cs)"
      using True by (simp only: collapse_hyphens_run)
    finally show ?thesis .
  next
    case False
    then have "sub_hyphen_runs (c # cs) = c # collapse_hyphens cs"
      using 2(2) by auto
    also have "\<dots> = collapse_hyphens (c # cs)"
      using collapse_hyphens_other[OF False] by (rule sym)
    finally show ?thesis .
  qed
qed

lemma sub_non_slug_class: "sub_non_slug s = map (\<lambda>c. if c \<in> slug_class then c else hyphen) s"
  by (auto simp: sub_non_slug_def slug_class_def slug_char_def)

lemma strip_order: "strip_hyphens s = spec_strip s"
proof (induction s)
  case Nil
  then show ?case by (simp add: strip_hyphens_def spec_strip_def)
next
  case (Cons c s)
  let ?Q = "\<lambda>c. c = hyphen"
  show ?case
  proof (cases "c = hyphen")
    case True
    then have l: "strip_hyphens (c # s) = strip_hyphens s"
      by (simp add: strip_hyphens_def)
    show ?thesis
    proof (cases "\<forall>x\<in>set s. x = hyphen")
      case all: True
      then have "dropWhile ?Q (rev s) = []" by simp
      moreover have "dropWhile ?Q (rev (c # s)) = []" using all True by simp
      ultimately have "spec_strip (c # s) = spec_strip s" 
        unfolding spec_strip_def by (simp only:)
      with l Cons show ?thesis by simp
    next
      case False
      then have "dropWhile ?Q (rev (c # s)) = dropWhile ?Q (rev s) @ [c]"
        by (auto simp: dropWhile_append)
      then have "spec_strip (c # s) = dropWhile ?Q (c # rev (dropWhile ?Q (rev s)))"
        unfolding spec_strip_def by simp
      also have "\<dots> = spec_strip s" using True by (simp add: spec_strip_def)
      finally show ?thesis using l Cons by simp
    qed
  next
    case False
    then have "dropWhile ?Q (rev (c # s)) = dropWhile ?Q (rev s) @ [c]"
      by (auto simp: dropWhile_append)
    then have r: "rev (dropWhile ?Q (rev (c # s))) = c # rev (dropWhile ?Q (rev s))"
      by simp
    have "spec_strip (c # s) = c # rev (dropWhile ?Q (rev s))"
      unfolding spec_strip_def using False by (simp only: r) simp
    moreover have "strip_hyphens (c # s) = c # rev (dropWhile ?Q (rev s))"
      unfolding strip_hyphens_def using False r by simp
    ultimately show ?thesis by simp
  qed
qed

subsection \<open>Sanitized slugs match the regular expression\<close>

lemma alnum_single: "slug_char c \<Longrightarrow> c \<noteq> hyphen \<Longrightarrow> [c] \<in> lang alnum_re"
  by (auto simp: slug_char_def alnum_re_def)

lemma seqI: "u \<in> lang r \<Longrightarrow> v \<in> lang s \<Longrightarrow> u @ v \<in> lang (Seq r s)"
  by auto

lemma plusI: "u \<in> lang r \<Longrightarrow> v \<in> star (lang r) \<Longrightarrow> u @ v \<in> lang (Plus r)"
  by auto

lemma plus_star: "w \<in> lang (Plus r) \<Longrightarrow> w \<in> star (lang r)"
  by (auto intro: star_app)

lemma plus_single: "slug_char c \<Longrightarrow> c \<noteq> hyphen \<Longrightarrow> [c] \<in> lang (Plus alnum_re)"
  using plusI[OF alnum_single star_nil, of c] by (simp del: lang.simps)

lemma plus_cons:
  assumes "slug_char c" "c \<noteq> hyphen" "w \<in> lang (Plus alnum_re)"
  shows "c # w \<in> lang (Plus alnum_re)"
proof -
  have "[c] \<in> lang alnum_re" using assms(1,2) by (rule alnum_single)
  moreover have "w \<in> star (lang alnum_re)" using assms(3) by (rule plus_star)
  ultimately have "[c] @ w \<in> lang (Plus alnum_re)" by (rule plusI)
  then show ?thesis by (simp del: lang.simps)
qed

lemma slug_decompose:
  "s \<noteq> [] \<Longrightarrow> list_all slug_char s \<Longrightarrow> hd s \<noteq> hyphen \<Longrightarrow> last s \<noteq> hyphen \<Longrightarrow> no_double s
   \<Longrightarrow> \<exists>w r. s = w @ r \<and> w \<in> lang (Plus alnum_re) \<and> r \<in> star (lang tail_re)"
proof (induction "length s" arbitrary: s rule: less_induct)
  case less
  from less.prems(1) obtain a t where s: "s = a # t" by (cases s) auto
  from less.prems(2,3) s have a: "slug_char a" "a \<noteq> hyphen" by simp_all
  show ?case
  proof (cases t)
    case Nil
    have "[a] \<in> lang (Plus alnum_re)" using a by (rule plus_single)
    moreover have "s = [a] @ []" using s Nil by simp
    ultimately show ?thesis using star_nil by blast
  next
    case (Cons b u)
    have t_all: "list_all slug_char t" using less.prems(2) s by simp
    have t_last: "last t \<noteq> hyphen" using less.prems(4) s Cons by simp
    have t_nd: "no_double t" using less.prems(5) s by (simp add: no_double_Cons)
    show ?thesis
    proof (cases "b = hyphen")
      case False
      have "length t < length s" using s by simp
      moreover have "t \<noteq> []" "hd t \<noteq> hyphen" using Cons False by simp_all
      ultimately obtain w r where t: "t = w @ r" "w \<in> lang (Plus alnum_re)"
        "r \<in> star (lang tail_re)"
        using less.hyps[of t] t_all t_last t_nd by blast
      have "a # w \<in> lang (Plus alnum_re)" using a t(2) by (rule plus_cons)
      moreover have "s = (a # w) @ r" using s t(1) by simp
      ultimately show ?thesis using t(3) by blast
    next
      case True
      have u: "u \<noteq> []" using t_last Cons True by auto
      have hu: "hd u \<noteq> hyphen" using t_nd Cons True u by (simp add: no_double_Cons)
      have u_all: "list_all slug_char u" using t_all Cons by simp
      have u_last: "last u \<noteq> hyphen" using t_last Cons u by simp
      have u_nd: "no_double u" using t_nd Cons by (simp add: no_double_Cons)
      have "length u < length s" using s Cons by simp
      then obtain w r where t: "u = w @ r" "w \<in> lang (Plus alnum_re)"
        "r \<in> star (lang tail_re)"
        using less.hyps[of u] u hu u_all u_last u_nd by blast
      have "[hyphen] \<in> lang (Lit hyphen)" by simp
      then have "[hyphen] @ w \<in> lang tail_re" using t(2) by (rule seqI)
      then have "([hyphen] @ w) @ r \<in> star (lang tail_re)"
        using t(3) by (rule star_app)
      moreover have "[a] \<in> lang (Plus alnum_re)" using a by (rule plus_single)
      moreover have "s = [a] @ (([hyphen] @ w) @ r)" using s Cons True t(1) by simp
      ultimately show ?thesis by blast
    qed
  qed
qed

lemma is_slug_matches: "is_slug s \<Longrightarrow> s \<in> lang slug_re"
proof -
  assume "is_slug s"
  then obtain w r where s: "s = w @ r" and w: "w \<in> lang (Plus alnum_re)"
    and r: "r \<in> star (lang tail_re)"
    unfolding is_slug_def using slug_decompose[of s] by blast
  from r have "r \<in> lang (Star tail_re)" by (simp del: lang.simps(4) lang.simps(6))
  with w have "w @ r \<in> lang (Seq (Plus alnum_re) (Star tail_re))" by (rule seqI)
  then show ?thesis
    unfolding slug_re_def s .
qed

text \<open>
  Claim C1. The sanitizer is a total function, and for every string \<open>s\<close> (and every
  Unicode table \<open>L\<close>): sanitizing twice is sanitizing once, and the output matches
  \<open>[a-z0-9]+(-[a-z0-9]+)*\<close> or is the string \<open>article\<close>.
\<close>

theorem sanitize_slug_idempotent_shape:
  "sanitize_slug L (sanitize_slug L s) = sanitize_slug L s \<and>
   (sanitize_slug L s \<in> lang slug_re \<or> sanitize_slug L s = asc ''article'')"
proof
  have "is_slug (sanitize_slug L s)" by (rule sanitize_slug_is_slug)
  then show "sanitize_slug L (sanitize_slug L s) = sanitize_slug L s"
    by (rule sanitize_slug_fixes_slug)
next
  have "is_slug (sanitize_slug L s)" by (rule sanitize_slug_is_slug)
  then have "sanitize_slug L s \<in> lang slug_re" by (rule is_slug_matches)
  then show "sanitize_slug L s \<in> lang slug_re \<or> sanitize_slug L s = asc ''article''" ..
qed

theorem sanitize_slug_idempotent_shape_witness:
  "sanitize_slug id (asc ''my-post'') = asc ''my-post'' \<and>
   (asc ''my-post'' \<in> lang slug_re \<or> asc ''my-post'' = asc ''article'')"
proof -
  have e: "sanitize_slug id (asc ''My  Post!'') = asc ''my-post''"
    by (simp add: sanitize_slug_def asc_def py_lower_def ascii_lower_def sub_non_slug_def
        slug_char_def strip_hyphens_def)
  show ?thesis
    using sanitize_slug_idempotent_shape [of id "asc ''My  Post!''"] unfolding e .
qed

text \<open>
  Claim C4. The sanitizer computes exactly the five steps of the specification
  (lower-case, replace every character outside \<open>[a-z0-9-]\<close> by a hyphen, collapse runs
  of hyphens, strip hyphens at both ends, fall back to \<open>article\<close>), whatever the Unicode
  tables \<open>L\<close> are; \<open>sanitize("Hello, World!!")\<close> is \<open>hello-world\<close> and \<open>sanitize("---")\<close>
  is \<open>article\<close>.
\<close>

theorem sanitize_slug_refines_spec:
  "sanitize_slug L s = spec_sanitize L s \<and>
   sanitize_slug L (asc ''Hello, World!!'') = asc ''hello-world'' \<and>
   sanitize_slug L (asc ''---'') = asc ''article''"
proof (intro conjI)
  show "sanitize_slug L s = spec_sanitize L s"
    by (simp add: sanitize_slug_def spec_sanitize_def sub_hyphen_runs_collapse
        strip_order sub_non_slug_class)
  show "sanitize_slug L (asc ''Hello, World!!'') = asc ''hello-world''"
    by (simp add: sanitize_slug_def asc_def py_lower_def ascii_lower_def sub_non_slug_def
        slug_char_def strip_hyphens_def)
  show "sanitize_slug L (asc ''---'') = asc ''article''"
    by (simp add: sanitize_slug_def asc_def py_lower_def ascii_lower_def sub_non_slug_def
        slug_char_def strip_hyphens_def)
qed

theorem sanitize_slug_refines_spec_witness:
  "sanitize_slug id (asc ''a--B__c-'') = asc ''a-b-c'' \<and>
   spec_sanitize id (asc ''a--B__c-'') = asc ''a-b-c''"
proof -
  have "sanitize_slug id (asc ''a--B__c-'') = asc ''a-b-c''"
    by (simp add: sanitize_slug_def asc_def py_lower_def ascii_lower_def sub_non_slug_def
        slug_char_def strip_hyphens_def)
  then show ?thesis
    using sanitize_slug_refines_spec [of id "asc ''a--B__c-''"] by simp
qed

section \<open>Properties of the conversation controller\<close>

lemma settle_returned: "settle c (fs, rs, Returned c') = (\<lparr>state = c', files = fs\<rparr>, rs)"
  by (simp add: settle_def)

lemma cancel_not_start: "asc ''cancel'' \<noteq> asc ''start''"
  by (simp add: asc_def)

text \<open>
  Claim C8, as amended. A cancel command sent while the conversation waits for a topic is
  answered with the cancellation acknowledgment and the conversation becomes idle. A
  cancel command sent while the conversation is idle reaches no handler (\<open>cancel\<close> is a
  fallback of the conversation handler, and fallbacks are tried only inside a
  conversation): there is no reply, and the conversation stays idle.
\<close>

theorem cancel_only_inside_conversation:
  "handle_update rt now \<lparr>state = AwaitingTopic, files = fs\<rparr> (Command (asc ''cancel''))
     = (\<lparr>state = Idle, files = fs\<rparr>, [msg_cancelled]) \<and>
   handle_update rt now \<lparr>state = Idle, files = fs\<rparr> (Command (asc ''cancel''))
     = (\<lparr>state = Idle, files = fs\<rparr>, [])"
proof
  show "handle_update rt now \<lparr>state = AwaitingTopic, files = fs\<rparr> (Command (asc ''cancel''))
     = (\<lparr>state = Idle, files = fs\<rparr>, [msg_cancelled])"
    by (simp add: handle_update_def cancel_not_start cancel_handler_def settle_returned)
next
  have "asc ''cancel'' \<noteq> asc ''generate''" "asc ''cancel'' \<noteq> asc ''publish''"
    by (simp_all add: asc_def)
  then show "handle_update rt now \<lparr>state = Idle, files = fs\<rparr> (Command (asc ''cancel''))
     = (\<lparr>state = Idle, files = fs\<rparr>, [])"
    by (simp add: handle_update_def cancel_not_start)
qed

theorem cancel_only_inside_conversation_witness:
  "handle_update (fixed_backend []) a_date \<lparr>state = AwaitingTopic, files = template_fs []\<rparr>
     (Command (asc ''cancel''))
     = (\<lparr>state = Idle, files = template_fs []\<rparr>, [msg_cancelled])"
  using cancel_only_inside_conversation [of "fixed_backend []" a_date "template_fs []"] by simp

text \<open>
  The claim as stated fails in the idle state: the cancel command gets no reply at all.
\<close>

theorem cancel_when_idle_counterexample:
  "snd (handle_update (fixed_backend []) a_date \<lparr>state = Idle, files = template_fs []\<rparr>
     (Command (asc ''cancel''))) = []"
proof -
  have "asc ''cancel'' \<noteq> asc ''generate''" "asc ''cancel'' \<noteq> asc ''publish''"
    by (simp_all add: asc_def)
  then show ?thesis
    by (simp add: handle_update_def cancel_not_start)
qed

section \<open>Properties of the response validator\<close>

lemma messages_differ: "msg_parse_failure \<noteq> msg_failure"
  by (simp add: msg_parse_failure_def msg_failure_def asc_def)

lemma failure_reply_parse: "failure_reply JSONDecodeError = msg_parse_failure"
  by (simp add: failure_reply_def)

lemma failure_reply_other: "e \<noteq> JSONDecodeError \<Longrightarrow> failure_reply e = msg_failure"
  by (simp add: failure_reply_def)

lemma generate_article_decode_error:
  "generate_content rt (build_prompt topic) = Inr text \<Longrightarrow> loads rt (clean_response text) = Inl e
   \<Longrightarrow> generate_article rt topic = Inl e"
  by (simp add: generate_article_def)

lemma generate_article_missing:
  "generate_content rt (build_prompt topic) = Inr text
   \<Longrightarrow> loads rt (clean_response text) = Inr (PDict d)
   \<Longrightarrow> required - set (map fst d) \<noteq> {}
   \<Longrightarrow> generate_article rt topic = Inl (ValueError_missing_keys (required - set (map fst d)))"
  by (simp add: generate_article_def)

lemma generate_article_complete:
  "generate_content rt (build_prompt topic) = Inr text
   \<Longrightarrow> loads rt (clean_response text) = Inr (PDict d)
   \<Longrightarrow> required - set (map fst d) = {}
   \<Longrightarrow> generate_article rt topic = Inr d"
  by (simp add: generate_article_def)

lemma generate_article_no_dict:
  "generate_content rt (build_prompt topic) = Inr text
   \<Longrightarrow> loads rt (clean_response text) = Inr v
   \<Longrightarrow> \<forall>d. v \<noteq> PDict d
   \<Longrightarrow> generate_article rt topic = Inl AttributeError"
  by (cases v) (simp_all add: generate_article_def)

lemma topic_received_failure:
  "py_strip msg \<noteq> [] \<Longrightarrow> generate_article rt (py_strip msg) = Inl e
   \<Longrightarrow> topic_received rt now fs msg = (fs, [msg_generating, failure_reply e], Returned Idle)"
  by (simp add: topic_received_def)

lemma handle_text_awaiting:
  "handle_update rt now \<lparr>state = AwaitingTopic, files = fs\<rparr> (TextMessage msg)
     = settle AwaitingTopic (topic_received rt now fs msg)"
  by (simp add: handle_update_def)

lemma handle_failure:
  "py_strip msg \<noteq> [] \<Longrightarrow> generate_article rt (py_strip msg) = Inl e
   \<Longrightarrow> handle_update rt now \<lparr>state = AwaitingTopic, files = fs\<rparr> (TextMessage msg)
       = (\<lparr>state = Idle, files = fs\<rparr>, [msg_generating, failure_reply e])"
  by (simp add: handle_text_awaiting topic_received_failure settle_returned)

lemma clean_not_json: "clean_response (asc ''not json'') = asc ''not json''"
  by (simp add: clean_response_def py_strip_def py_rstrip_def is_space_def asc_def
      sub_leading_fence_def sub_trailing_fence_def suffix_def)

lemma clean_brackets: "clean_response (asc ''[]'') = asc ''[]''"
  by (simp add: clean_response_def py_strip_def py_rstrip_def is_space_def asc_def
      sub_leading_fence_def sub_trailing_fence_def suffix_def)

lemma json_loads_not_json: "json_loads (asc ''not json'') = Inl JSONDecodeError"
  by code_simp

lemma json_loads_brackets: "json_loads (asc ''[]'') = Inr (PList [])"
  by code_simp

lemma strip_cats: "py_strip (asc ''cats'') = asc ''cats''"
  by (simp add: py_strip_def py_rstrip_def is_space_def asc_def)

lemma generate_not_json:
  "generate_article (fixed_backend (asc ''not json'')) topic = Inl JSONDecodeError"
  by (simp add: generate_article_def fixed_backend_def clean_not_json json_loads_not_json)

lemma generate_brackets:
  "generate_article (fixed_backend (asc ''[]'')) topic = Inl AttributeError"
  by (simp add: generate_article_def fixed_backend_def clean_brackets json_loads_brackets)

lemma clean_title_only: "clean_response (asc ''{\"title\":\"T\"}'') = asc ''{\"title\":\"T\"}''"
  by (simp add: clean_response_def py_strip_def py_rstrip_def is_space_def asc_def
      sub_leading_fence_def sub_trailing_fence_def suffix_def)

lemma json_loads_title_only:
  "json_loads (asc ''{\"title\":\"T\"}'') = Inr (PDict [(asc ''title'', PStr (asc ''T''))])"
  by code_simp

lemma missing_title_only:
  "required - set (map fst [(asc ''title'', PStr (asc ''T''))])
     = {asc ''slug'', asc ''meta_description'', asc ''keywords'', asc ''html_content''}"
  by (simp add: required_def asc_def insert_Diff_if)

text \<open>
  Claim C2, as amended. When the cleaned backend text is not JSON, \<open>generate_article\<close>
  fails with the parse error and the user gets the could-not-parse message. When it is a
  JSON object that lacks some of the five required keys, \<open>generate_article\<close> fails with
  the validation error that carries exactly the missing keys; when it is valid JSON but
  no object (an array, a string, a number, \<open>true\<close>, \<open>false\<close>, \<open>null\<close>), it fails with an
  attribute error instead. Both are shown to the user as the generic failure message,
  which differs from the could-not-parse message. In every case the session becomes idle.
\<close>

theorem response_validator_failure_modes:
  assumes "py_strip msg \<noteq> []"
    and "generate_content rt (build_prompt (py_strip msg)) = Inr text"
  shows
    "(loads rt (clean_response text) = Inl JSONDecodeError \<longrightarrow>
        generate_article rt (py_strip msg) = Inl JSONDecodeError \<and>
        handle_update rt now \<lparr>state = AwaitingTopic, files = fs\<rparr> (TextMessage msg)
          = (\<lparr>state = Idle, files = fs\<rparr>, [msg_generating, msg_parse_failure])) \<and>
     (\<forall>d. loads rt (clean_response text) = Inr (PDict d) \<and> required - set (map fst d) \<noteq> {} \<longrightarrow>
        generate_article rt (py_strip msg)
          = Inl (ValueError_missing_keys (required - set (map fst d))) \<and>
        handle_update rt now \<lparr>state = AwaitingTopic, files = fs\<rparr> (TextMessage msg)
          = (\<lparr>state = Idle, files = fs\<rparr>, [msg_generating, msg_failure])) \<and>
     (\<forall>v. loads rt (clean_response text) = Inr v \<and> (\<forall>d. v \<noteq> PDict d) \<longrightarrow>
        generate_article rt (py_strip msg) = Inl AttributeError \<and>
        handle_update rt now \<lparr>state = AwaitingTopic, files = fs\<rparr> (TextMessage msg)
          = (\<lparr>state = Idle, files = fs\<rparr>, [msg_generating, msg_failure])) \<and>
     msg_parse_failure \<noteq> msg_failure"
proof (intro conjI allI impI)
  assume "loads rt (clean_response text) = Inl JSONDecodeError"
  with assms(2) show g: "generate_article rt (py_strip msg) = Inl JSONDecodeError"
    by (rule generate_article_decode_error)
  show "handle_update rt now \<lparr>state = AwaitingTopic, files = fs\<rparr> (TextMessage msg)
          = (\<lparr>state = Idle, files = fs\<rparr>, [msg_generating, msg_parse_failure])"
    using handle_failure[OF assms(1) g] by (simp add: failure_reply_parse)
next
  fix d
  assume a: "loads rt (clean_response text) = Inr (PDict d) \<and> required - set (map fst d) \<noteq> {}"
  then show g: "generate_article rt (py_strip msg)
          = Inl (ValueError_missing_keys (required - set (map fst d)))"
    using assms(2) by (simp add: generate_article_missing)
  show "handle_update rt now \<lparr>state = AwaitingTopic, files = fs\<rparr> (TextMessage msg)
          = (\<lparr>state = Idle, files = fs\<rparr>, [msg_generating, msg_failure])"
    using handle_failure[OF assms(1) g] by (simp add: failure_reply_other)
next
  fix v
  assume a: "loads rt (clean_response text) = Inr v \<and> (\<forall>d. v \<noteq> PDict d)"
  then show g: "generate_article rt (py_strip msg) = Inl AttributeError"
    using assms(2) generate_article_no_dict by blast
  show "handle_update rt now \<lparr>state = AwaitingTopic, files = fs\<rparr> (TextMessage msg)
          = (\<lparr>state = Idle, files = fs\<rparr>, [msg_generating, msg_failure])"
    using handle_failure[OF assms(1) g] by (simp add: failure_reply_other)
next
  show "msg_parse_failure \<noteq> msg_failure" by (rule messages_differ)
qed

text \<open>
  The claim as stated fails on valid JSON that is no object: the text \<open>[]\<close> decodes to
  the empty list, which has none of the required keys, and the failure is the attribute
  error, not a validation error that names the missing keys.
\<close>

theorem non_object_json_counterexample:
  "json_loads (clean_response (asc ''[]'')) = Inr (PList []) \<and>
   generate_article (fixed_backend (asc ''[]'')) (asc ''cats'') = Inl AttributeError"
  by (simp add: clean_brackets json_loads_brackets generate_brackets)

text \<open>
  Claim C10. When \<open>generate_article\<close> fails (with the parse error, the missing-key
  validation error or any other exception), \<open>save_article\<close> is not reached: the file
  system after the message is the file system before it, so no article file is created or
  overwritten and the output directory is not created. The replies are the
  acknowledgment sent before the generation starts and the error message, and the
  session becomes idle.
\<close>

theorem generation_failure_leaves_files:
  assumes "py_strip msg \<noteq> []"
    and "generate_article rt (py_strip msg) = Inl e"
  shows "topic_received rt now fs msg = (fs, [msg_generating, failure_reply e], Returned Idle) \<and>
         handle_update rt now \<lparr>state = AwaitingTopic, files = fs\<rparr> (TextMessage msg)
           = (\<lparr>state = Idle, files = fs\<rparr>, [msg_generating, failure_reply e])"
  using assms by (simp add: topic_received_failure handle_failure)

theorem generation_failure_leaves_files_witness:
  "handle_update (fixed_backend (asc ''not json'')) a_date
       \<lparr>state = AwaitingTopic, files = template_fs (asc ''<h1>{{ title }}</h1>'')\<rparr>
       (TextMessage (asc ''cats''))
     = (\<lparr>state = Idle, files = template_fs (asc ''<h1>{{ title }}</h1>'')\<rparr>,
        [msg_generating, msg_parse_failure])"
proof -
  have 1: "py_strip (asc ''cats'') \<noteq> []"
    by (simp add: strip_cats) (simp add: asc_def)
  have 2: "generate_article (fixed_backend (asc ''not json'')) (py_strip (asc ''cats''))
             = Inl JSONDecodeError"
    by (rule generate_not_json)
  show ?thesis
    using generation_failure_leaves_files [OF 1 2] by (simp add: failure_reply_parse)
qed

end
